theory Spec2Isabelle
  imports Complex_Main
begin

section \<open>Double-precision values\<close>

text \<open>
  The C++ type \<^verbatim>\<open>double\<close> is modelled by the reals extended with the three special
  values of IEEE 754. The four arithmetic operations are exact on finite values: their
  rounding, the overflow of a finite sum, product or quotient and the sign of zero are not
  modelled. What is modelled is how the special values arise and propagate (a division by
  zero, an overflow of \<^verbatim>\<open>exp\<close>, a comparison with NaN), since the functions below divide by
  quantities that can be zero and exponentiate squares. The theorems about values of any
  size are therefore stated in these operations, as the code composes them, and not as
  equations between real numbers.
\<close>

datatype double = Fin real | PInf | NInf | NaN

fun dneg :: "double \<Rightarrow> double" where
  "dneg (Fin a) = Fin (- a)"
| "dneg PInf = NInf"
| "dneg NInf = PInf"
| "dneg NaN = NaN"

fun dadd :: "double \<Rightarrow> double \<Rightarrow> double" where
  "dadd (Fin a) (Fin b) = Fin (a + b)"
| "dadd NaN _ = NaN"
| "dadd _ NaN = NaN"
| "dadd PInf NInf = NaN"
| "dadd NInf PInf = NaN"
| "dadd PInf _ = PInf"
| "dadd NInf _ = NInf"
| "dadd _ PInf = PInf"
| "dadd _ NInf = NInf"

definition dsub :: "double \<Rightarrow> double \<Rightarrow> double" where
  "dsub a b = dadd a (dneg b)"

fun dmul :: "double \<Rightarrow> double \<Rightarrow> double" where
  "dmul (Fin a) (Fin b) = Fin (a * b)"
| "dmul NaN _ = NaN"
| "dmul _ NaN = NaN"
| "dmul (Fin a) PInf = (if a = 0 then NaN else if 0 < a then PInf else NInf)"
| "dmul (Fin a) NInf = (if a = 0 then NaN else if 0 < a then NInf else PInf)"
| "dmul PInf (Fin b) = (if b = 0 then NaN else if 0 < b then PInf else NInf)"
| "dmul NInf (Fin b) = (if b = 0 then NaN else if 0 < b then NInf else PInf)"
| "dmul PInf PInf = PInf"
| "dmul PInf NInf = NInf"
| "dmul NInf PInf = NInf"
| "dmul NInf NInf = PInf"

fun ddiv :: "double \<Rightarrow> double \<Rightarrow> double" where
  "ddiv (Fin a) (Fin b) =
     (if b = 0 then (if a = 0 then NaN else if 0 < a then PInf else NInf)
      else Fin (a / b))"
| "ddiv NaN _ = NaN"
| "ddiv _ NaN = NaN"
| "ddiv (Fin a) PInf = Fin 0"
| "ddiv (Fin a) NInf = Fin 0"
| "ddiv PInf (Fin b) = (if 0 \<le> b then PInf else NInf)"
| "ddiv NInf (Fin b) = (if 0 \<le> b then NInf else PInf)"
| "ddiv _ _ = NaN"

text \<open>Comparisons: every ordered comparison with NaN is false.\<close>

fun dlt :: "double \<Rightarrow> double \<Rightarrow> bool" where
  "dlt (Fin a) (Fin b) = (a < b)"
| "dlt NaN _ = False"
| "dlt _ NaN = False"
| "dlt PInf _ = False"
| "dlt _ NInf = False"
| "dlt _ _ = True"

fun dle :: "double \<Rightarrow> double \<Rightarrow> bool" where
  "dle (Fin a) (Fin b) = (a \<le> b)"
| "dle NaN _ = False"
| "dle _ NaN = False"
| "dle NInf _ = True"
| "dle _ PInf = True"
| "dle _ _ = False"

definition dgt :: "double \<Rightarrow> double \<Rightarrow> bool" where
  "dgt a b = dlt b a"

definition dge :: "double \<Rightarrow> double \<Rightarrow> bool" where
  "dge a b = dle b a"

fun deq :: "double \<Rightarrow> double \<Rightarrow> bool" where
  "deq (Fin a) (Fin b) = (a = b)"
| "deq PInf PInf = True"
| "deq NInf NInf = True"
| "deq _ _ = False"

fun isFinite :: "double \<Rightarrow> bool" where
  "isFinite (Fin a) = True"
| "isFinite _ = False"

text \<open>
  The C library functions \<^verbatim>\<open>exp\<close> and \<^verbatim>\<open>pow\<close>, with the special cases of C99 Annex F.
  \<^verbatim>\<open>exp\<close> overflows to \<open>+\<infinity>\<close> when its value leaves the range of a double, which
  happens from arguments of about \<open>709.8\<close> on.
\<close>

fun dexp :: "double \<Rightarrow> double" where
  "dexp (Fin a) = (if 2 ^ 1024 \<le> exp a then PInf else Fin (exp a))"
| "dexp PInf = PInf"
| "dexp NInf = Fin 0"
| "dexp NaN = NaN"

definition isOddInt :: "real \<Rightarrow> bool" where
  "isOddInt y = (y \<in> \<int> \<and> odd \<lfloor>y\<rfloor>)"

fun dpow :: "double \<Rightarrow> double \<Rightarrow> double" where
  "dpow x (Fin y) =
     (if y = 0 then Fin 1
      else case x of
        NaN \<Rightarrow> NaN
      | PInf \<Rightarrow> (if y < 0 then Fin 0 else PInf)
      | NInf \<Rightarrow> (if y < 0 then Fin 0 else if isOddInt y then NInf else PInf)
      | Fin a \<Rightarrow>
          (if a = 0 then (if y < 0 then PInf else Fin 0)
           else if 0 < a then Fin (a powr y)
           else if y \<in> \<int> then Fin ((if isOddInt y then - 1 else 1) * (\<bar>a\<bar> powr y))
           else NaN))"
| "dpow x PInf =
     (case x of
        NaN \<Rightarrow> NaN
      | Fin a \<Rightarrow> (if \<bar>a\<bar> = 1 then Fin 1 else if \<bar>a\<bar> < 1 then Fin 0 else PInf)
      | _ \<Rightarrow> PInf)"
| "dpow x NInf =
     (case x of
        NaN \<Rightarrow> NaN
      | Fin a \<Rightarrow> (if \<bar>a\<bar> = 1 then Fin 1 else if \<bar>a\<bar> < 1 then PInf else Fin 0)
      | _ \<Rightarrow> Fin 0)"
| "dpow x NaN = (if x = Fin 1 then Fin 1 else NaN)"

section \<open>Capacity-limit transform\<close>

text \<open>
  \<^verbatim>\<open>Subsector::capLimitTransform\<close>. The constant \<^verbatim>\<open>util::getSmallNumber()\<close> is declared
  outside the files at hand and is the parameter \<open>SMALL_NUM\<close>.
\<close>

definition capLimitTransform :: "double \<Rightarrow> double \<Rightarrow> double \<Rightarrow> double" where
  "capLimitTransform SMALL_NUM capLimit orgShare =
     (let exponentValue = Fin 2;
          mult = Fin (14 / 10);
          newShare = capLimit
      in if dlt capLimit (dsub (Fin 1) SMALL_NUM)
         then (let factor = dexp (dpow (ddiv (dmul mult orgShare) capLimit) exponentValue)
               in ddiv (dmul orgShare factor)
                       (dadd (Fin 1) (dmul (ddiv orgShare capLimit) factor)))
         else newShare)"

text \<open>
  The squashing formula in the words of the specification, for comparison with the code:
  \<open>factor = exp ((k * rawShare / capLimit) ^ p)\<close> with \<open>k = 1.4\<close> and \<open>p = 2\<close>, and
  \<open>boundedShare = rawShare * factor / (1 + (rawShare / capLimit) * factor)\<close>; first with the
  operations of \<^typ>\<open>double\<close>, then on the reals.
\<close>

definition logisticSquash :: "double \<Rightarrow> double \<Rightarrow> double" where
  "logisticSquash capLimit rawShare =
     (let factor = dexp (dpow (ddiv (dmul (Fin (14 / 10)) rawShare) capLimit) (Fin 2))
      in ddiv (dmul rawShare factor) (dadd (Fin 1) (dmul (ddiv rawShare capLimit) factor)))"

definition squash :: "real \<Rightarrow> real \<Rightarrow> real" where
  "squash c x =
     x * exp ((14 / 10 * x / c)\<^sup>2) / (1 + x / c * exp ((14 / 10 * x / c)\<^sup>2))"

section \<open>Collaborators of the subsector\<close>

text \<open>
  The class \<^verbatim>\<open>technology\<close> is declared outside the files at hand. Its member functions, as
  \<^verbatim>\<open>Subsector\<close> calls them through \<^verbatim>\<open>techs[i][period]\<close>, are the fields of a record of
  operations on an abstract technology state \<open>'t\<close>: a mutating member function returns the
  new state of the object it is called on.
\<close>

record GDP =
  getBestScaledGDPperCap :: "nat \<Rightarrow> double"

record 't technology_ops =
  tech_initCalc :: "'t \<Rightarrow> 't"
  calcfixedOutput :: "nat \<Rightarrow> 't \<Rightarrow> 't"
  calcCost :: "string \<Rightarrow> string \<Rightarrow> nat \<Rightarrow> 't \<Rightarrow> 't"
  tech_calcShare :: "string \<Rightarrow> GDP \<Rightarrow> nat \<Rightarrow> 't \<Rightarrow> 't"
  tech_normShare :: "double \<Rightarrow> 't \<Rightarrow> 't"
  tech_adjustForCalibration :: "double \<Rightarrow> 't \<Rightarrow> 't"
  copyGHGParameters :: "'t \<Rightarrow> string \<Rightarrow> 't \<Rightarrow> 't"
  getShare :: "'t \<Rightarrow> double"
  getTechcost :: "'t \<Rightarrow> double"
  getFuelcost :: "'t \<Rightarrow> double"
  getFuelName :: "'t \<Rightarrow> string"
  getFixedOutput_tech :: "'t \<Rightarrow> double"
  getCalibrationStatus :: "'t \<Rightarrow> bool"
  getCalibrationOutput :: "'t \<Rightarrow> double"
  techAvailable :: "'t \<Rightarrow> bool"
  getGHGNames :: "'t \<Rightarrow> string list"
  getNumbGHGs :: "'t \<Rightarrow> nat"

text \<open>
  The global \<^verbatim>\<open>scenario\<close> with its model time and world, and the configuration switch
  \<^verbatim>\<open>CalibrationActive\<close>. Periods are indices into the period vectors; years are integers.
\<close>

record Modeltime =
  getmaxper :: nat
  getstartyr :: int
  getyr_to_per :: "int \<Rightarrow> nat"

record Scenario =
  getModeltime :: Modeltime
  getPrimaryFuelCO2Coef :: "string \<Rightarrow> string \<Rightarrow> double"
  CalibrationActive :: bool

section \<open>The subsector\<close>

text \<open>
  The data members of \<^verbatim>\<open>Subsector\<close> that the functions below read or write. Every period
  vector is resized to \<^verbatim>\<open>getmaxper()\<close> by the constructor; \<^verbatim>\<open>techs[i]\<close> holds one
  technology per period. Messages written to \<^verbatim>\<open>cerr\<close>, \<^verbatim>\<open>cout\<close> and the loggers are left out.
  A period is an index (\<^verbatim>\<open>int\<close> in the code, never negative where a vector is indexed);
  \<^verbatim>\<open>operator[]\<close> outside a vector is undefined in C++, so the theorems that depend on an
  entry assume the period within the vector.
\<close>

record 't Subsector =
  name :: string
  regionName :: string
  sectorName :: string
  notech :: nat
  techs :: "'t list list"
  capLimit :: "double list"
  shrwts :: "double list"
  lexp :: "double list"
  share :: "double list"
  subsectorprice :: "double list"
  fuelprice :: "double list"
  fuelPrefElasticity :: "double list"
  calOutputValue :: "double list"
  fixedShare :: "double list"
  doCalibration :: "bool list"
  calibrationStatus :: "bool list"
  capLimited :: "bool list"
  scaleYear :: int
  CO2EmFactor :: double

text \<open>
  The loop \<^verbatim>\<open>for ( i = 0; i < notech; i++ ) techs[i][period]->f(...)\<close>: the technology of
  each row at \<open>period\<close> is replaced by its new state; \<open>f\<close> also sees the row, for the loops
  that read \<^verbatim>\<open>techs[i][period - 1]\<close>.
\<close>

definition forTechs ::
  "nat \<Rightarrow> nat \<Rightarrow> ('t list \<Rightarrow> 't \<Rightarrow> 't) \<Rightarrow> 't list list \<Rightarrow> 't list list" where
  "forTechs n period f ts =
     fold (\<lambda>i ts. ts[i := (ts ! i)[period := f (ts ! i) (ts ! i ! period)]]) [0..<n] ts"

definition getTotalCalOutputs :: "'t technology_ops \<Rightarrow> 't Subsector \<Rightarrow> nat \<Rightarrow> double" where
  "getTotalCalOutputs ops s period =
     (if doCalibration s ! period
      then dadd (Fin 0) (calOutputValue s ! period)
      else fold (\<lambda>i sumCalValues.
                   if getCalibrationStatus ops (techs s ! i ! period)
                   then dadd sumCalValues (getCalibrationOutput ops (techs s ! i ! period))
                   else sumCalValues)
                [0..<notech s] (Fin 0))"

definition getFixedOutput :: "'t technology_ops \<Rightarrow> 't Subsector \<Rightarrow> nat \<Rightarrow> double" where
  "getFixedOutput ops s period =
     fold (\<lambda>i fixedOutput. dadd fixedOutput (getFixedOutput_tech ops (techs s ! i ! period)))
          [0..<notech s] (Fin 0)"

definition getNumberAvailTechs :: "'t technology_ops \<Rightarrow> 't Subsector \<Rightarrow> nat \<Rightarrow> nat" where
  "getNumberAvailTechs ops s period =
     fold (\<lambda>i numberAvailable.
             if techAvailable ops (techs s ! i ! period) then numberAvailable + 1
             else numberAvailable)
          [0..<notech s] 0"

definition setCalibrationStatus :: "'t technology_ops \<Rightarrow> 't Subsector \<Rightarrow> nat \<Rightarrow> 't Subsector" where
  "setCalibrationStatus ops s period =
     (if doCalibration s ! period
      then s\<lparr>calibrationStatus := (calibrationStatus s)[period := True]\<rparr>
      else if list_ex (\<lambda>i. getCalibrationStatus ops (techs s ! i ! period)) [0..<notech s]
           then s\<lparr>calibrationStatus := (calibrationStatus s)[period := True]\<rparr>
           else s)"

subsection \<open>Share-weight interpolation\<close>

text \<open>The loop of \<^verbatim>\<open>shareWeightLinearInterpFn\<close>, from \<open>period\<close> up to \<open>loopPeriod - 1\<close>.\<close>

function interpLoop :: "double \<Rightarrow> nat \<Rightarrow> nat \<Rightarrow> double list \<Rightarrow> double list" where
  "interpLoop shareIncrement period loopPeriod w =
     (if period < loopPeriod
      then interpLoop shareIncrement (Suc period) loopPeriod
             (w[period := dadd (w ! (period - 1)) shareIncrement])
      else w)"
  by pat_completeness auto
termination
  by (relation "measure (\<lambda>(shareIncrement, period, loopPeriod, w). loopPeriod - period)") auto

declare interpLoop.simps [simp del]

definition shareWeightLinearInterpFn ::
  "Scenario \<Rightarrow> nat \<Rightarrow> nat \<Rightarrow> 't Subsector \<Rightarrow> 't Subsector" where
  "shareWeightLinearInterpFn scn beginPeriod endPeriod s =
     (let loopPeriod =
            (if endPeriod > beginPeriod then endPeriod
             else if endPeriod = beginPeriod then getmaxper (getModeltime scn)
             else endPeriod);
          shareIncrement =
            (if endPeriod > beginPeriod
             then ddiv (dsub (shrwts s ! endPeriod) (shrwts s ! beginPeriod))
                       (Fin (real (endPeriod - beginPeriod)))
             else Fin 0)
      in s\<lparr>shrwts := interpLoop shareIncrement (beginPeriod + 1) loopPeriod (shrwts s)\<rparr>)"

definition interpolateShareWeights :: "Scenario \<Rightarrow> 't Subsector \<Rightarrow> nat \<Rightarrow> 't Subsector" where
  "interpolateShareWeights scn s period =
     (let modeltime = getModeltime scn
      in if period > getyr_to_per modeltime 1990 \<and> calibrationStatus s ! (period - 1)
            \<and> CalibrationActive scn
         then (let endPeriod =
                     (if scaleYear s \<ge> getstartyr modeltime
                      then getyr_to_per modeltime (scaleYear s) else 0)
               in if endPeriod \<ge> period - 1
                  then (if dge (shrwts s ! (period - 1)) (Fin 0)
                        then shareWeightLinearInterpFn scn (period - 1) endPeriod s
                        else s)
                  else s)
         else s)"


subsection \<open>Initialisation of a period\<close>

text \<open>
  The last loop of \<^verbatim>\<open>initCalc\<close> for one technology: from the third period on, the
  parameters of each greenhouse gas are copied from the technology of the previous period.
\<close>

definition passForwardGHG :: "'t technology_ops \<Rightarrow> nat \<Rightarrow> 't list \<Rightarrow> 't \<Rightarrow> 't" where
  "passForwardGHG ops period row t =
     (let ghgNames = getGHGNames ops t;
          numberOfGHGs = getNumbGHGs ops t
      in if period > 1
         then fold (\<lambda>j t. copyGHGParameters ops (row ! (period - 1)) (ghgNames ! j) t)
                   [0..<numberOfGHGs] t
         else t)"

definition initCalc ::
  "Scenario \<Rightarrow> 't technology_ops \<Rightarrow> 't Subsector \<Rightarrow> nat \<Rightarrow> 't Subsector" where
  "initCalc scn ops s period =
     (let modeltime = getModeltime scn;
          s1 = s\<lparr>techs := forTechs (notech s) period
                              (\<lambda>row t. calcfixedOutput ops period (tech_initCalc ops t))
                              (techs s)\<rparr>;
          s2 = setCalibrationStatus ops s1 period;
          s3 = interpolateShareWeights scn s2 period;
          s4 = s3\<lparr>fixedShare := (fixedShare s3)[period := Fin 0]\<rparr>;
          s5 = (if dgt (getFixedOutput ops s4 period) (Fin 0) \<and> deq (fixedShare s4 ! period) (Fin 0)
                then s4\<lparr>fixedShare := (fixedShare s4)[period := Fin (1 / 10)]\<rparr>
                else s4);
          s6 = (if dgt (getTotalCalOutputs ops s5 period) (Fin 0) \<and> dlt (capLimit s5 ! period) (Fin 1)
                then s5\<lparr>capLimit := (capLimit s5)[period := Fin 1]\<rparr>
                else s5)
      in if period > 0 \<and> period < getmaxper modeltime
         then s6\<lparr>techs := forTechs (notech s6) period (passForwardGHG ops period) (techs s6)\<rparr>
         else s6)"

subsection \<open>Shares\<close>




subsection \<open>Calibration\<close>

text \<open>
  The maximum of two doubles as \<^verbatim>\<open>std::max\<close> computes it; the specification writes the
  available demand with it.
\<close>

definition dmax :: "double \<Rightarrow> double \<Rightarrow> double" where
  "dmax a b = (if dlt a b then b else a)"

text \<open>
  Two blocks of \<^verbatim>\<open>adjustForCalibration\<close> by the names of the local variables they assign:
  the demand left after fixed supply, and the calibration output of the subsector after the
  block that rescales it.
\<close>

definition availableDemand :: "double \<Rightarrow> double \<Rightarrow> double" where
  "availableDemand sectorDemand totalfixedOutput =
     (let availableDemand = dsub sectorDemand totalfixedOutput
      in if dlt availableDemand (Fin 0) then Fin 0 else availableDemand)"

definition calOutputSubsect ::
  "'t technology_ops \<Rightarrow> 't Subsector \<Rightarrow> double \<Rightarrow> double \<Rightarrow> double \<Rightarrow> bool \<Rightarrow> nat \<Rightarrow> double" where
  "calOutputSubsect ops s sectorDemand totalfixedOutput totalCalOutputs allFixedOutput period =
     (let calOutputSubsect = getTotalCalOutputs ops s period;
          availableDemand = availableDemand sectorDemand totalfixedOutput
      in if \<not> (dlt totalCalOutputs availableDemand \<and> \<not> allFixedOutput)
         then dmul calOutputSubsect (ddiv availableDemand totalCalOutputs)
         else calOutputSubsect)"

definition adjustForCalibration ::
  "'t technology_ops \<Rightarrow> 't Subsector \<Rightarrow> double \<Rightarrow> double \<Rightarrow> double \<Rightarrow> bool \<Rightarrow> nat
     \<Rightarrow> 't Subsector" where
  "adjustForCalibration ops s sectorDemand totalfixedOutput totalCalOutputs allFixedOutput period =
     (let s1 = (if deq (shrwts s ! period) (Fin 0) \<and> dgt (getTotalCalOutputs ops s period) (Fin 0)
                then s\<lparr>shrwts := (shrwts s)[period := Fin 1]\<rparr>
                else s);
          calOutputSubsect =
            calOutputSubsect ops s sectorDemand totalfixedOutput totalCalOutputs allFixedOutput period;
          subSectorDemand = dmul (share s1 ! period) sectorDemand;
          s2 = (if dgt subSectorDemand (Fin 0)
                then (let shareScaleValue = ddiv calOutputSubsect subSectorDemand
                      in s1\<lparr>shrwts := (shrwts s1)
                              [period := dmul (shrwts s1 ! period) shareScaleValue]\<rparr>)
                else s1);
          s3 = (if dlt (shrwts s2 ! period) (Fin 0)
                then s2\<lparr>shrwts := (shrwts s2)[period := Fin 1]\<rparr>
                else s2);
          numberTechs = getNumberAvailTechs ops s3 period
      in if numberTechs > 1
         then s3\<lparr>techs := forTechs (notech s3) period
                              (\<lambda>row t. if techAvailable ops t
                                        then tech_adjustForCalibration ops calOutputSubsect t
                                        else t)
                              (techs s3)\<rparr>
         else s3)"

section \<open>A small instance\<close>

text \<open>
  A technology with a share, a cost and a calibration value, whose operations leave it as
  it is apart from normalising the share, and a subsector of three periods with one such
  technology, calibrated at the subsector level in period 1 (to the output 20) and in
  period 2 (to the output 0).
\<close>

record simpleTech =
  st_share :: double
  st_cost :: double
  st_calOutput :: double

definition simpleOps :: "simpleTech technology_ops" where
  "simpleOps =
     \<lparr>tech_initCalc = (\<lambda>t. t),
      calcfixedOutput = (\<lambda>period t. t),
      calcCost = (\<lambda>region sector period t. t),
      tech_calcShare = (\<lambda>region gdp period t. t),
      tech_normShare = (\<lambda>sum t. t\<lparr>st_share := ddiv (st_share t) sum\<rparr>),
      tech_adjustForCalibration = (\<lambda>demand t. t),
      copyGHGParameters = (\<lambda>prev ghgName t. t),
      getShare = st_share,
      getTechcost = st_cost,
      getFuelcost = (\<lambda>t. Fin 0),
      getFuelName = (\<lambda>t. ''gas''),
      getFixedOutput_tech = (\<lambda>t. Fin 0),
      getCalibrationStatus = (\<lambda>t. False),
      getCalibrationOutput = st_calOutput,
      techAvailable = (\<lambda>t. True),
      getGHGNames = (\<lambda>t. []),
      getNumbGHGs = (\<lambda>t. 0)\<rparr>"

definition simpleScenario :: Scenario where
  "simpleScenario =
     \<lparr>getModeltime = \<lparr>getmaxper = 3, getstartyr = 1975, getyr_to_per = (\<lambda>yr. nat ((yr - 1975) div 15))\<rparr>,
      getPrimaryFuelCO2Coef = (\<lambda>region fuel. Fin 0),
      CalibrationActive = True\<rparr>"


definition simpleTechnology :: simpleTech where
  "simpleTechnology = \<lparr>st_share = Fin 1, st_cost = Fin 2, st_calOutput = Fin 0\<rparr>"

definition simpleSubsector :: "simpleTech Subsector" where
  "simpleSubsector =
     \<lparr>name = ''gas'', regionName = ''USA'', sectorName = ''electricity'',
      notech = 1,
      techs = [[simpleTechnology, simpleTechnology, simpleTechnology]],
      capLimit = [Fin 1, Fin (1 / 2), Fin 1],
      shrwts = [Fin 1, Fin 1, Fin 1],
      lexp = [Fin (- 3), Fin (- 3), Fin (- 3)],
      share = [Fin (1 / 2), Fin (1 / 2), Fin (1 / 2)],
      subsectorprice = [Fin 0, Fin 0, Fin 0],
      fuelprice = [Fin 0, Fin 0, Fin 0],
      fuelPrefElasticity = [Fin 0, Fin 0, Fin 0],
      calOutputValue = [Fin 0, Fin 20, Fin 0],
      fixedShare = [Fin 0, Fin 0, Fin 0],
      doCalibration = [False, True, True],
      calibrationStatus = [False, False, False],
      capLimited = [False, False, False],
      scaleYear = 2005,
      CO2EmFactor = Fin 0\<rparr>"

section \<open>Properties of the double operations\<close>

lemma dge_not_dlt: "dge a b \<Longrightarrow> \<not> dlt a b"
  by (cases a; cases b) (simp_all add: dge_def)

lemma dadd_zero_right: "dadd a (Fin 0) = a"
  by (cases a) simp_all


section \<open>The capacity-limit transform\<close>







lemma squash_mono:
  assumes "0 < c" and "0 \<le> x" and "x \<le> y"
  shows "squash c x \<le> squash c y"
proof -
  let ?F = "\<lambda>z. exp ((14 / 10 * z / c)\<^sup>2)"
  let ?a = "x * ?F x" and ?b = "y * ?F y"
  have y0: "0 \<le> y" using assms by linarith
  have "14 / 10 * x / c \<le> 14 / 10 * y / c" using assms by (simp add: divide_right_mono)
  moreover have "0 \<le> 14 / 10 * x / c" using assms by simp
  ultimately have "(14 / 10 * x / c)\<^sup>2 \<le> (14 / 10 * y / c)\<^sup>2" by (rule power_mono)
  then have F: "?F x \<le> ?F y" by simp
  have ab: "?a \<le> ?b" using assms y0 F by (intro mult_mono) simp_all
  have a0: "0 \<le> ?a" using assms by simp
  have b0: "0 \<le> ?b" using y0 by simp
  have da: "0 < 1 + ?a / c" using a0 assms(1) by (simp add: add_pos_nonneg)
  have db: "0 < 1 + ?b / c" using b0 assms(1) by (simp add: add_pos_nonneg)
  have "?a * (1 + ?b / c) \<le> ?b * (1 + ?a / c)" using ab by (simp add: algebra_simps)
  then have "?a / (1 + ?a / c) \<le> ?b / (1 + ?b / c)" using da db by (simp add: frac_le_eq field_simps)
  then show ?thesis by (simp add: squash_def)
qed









text \<open>
  Claim C1, as stated: when \<open>capLimit \<ge> 1 - \<epsilon>\<close> the transform returns \<open>rawShare\<close>
  unchanged. The code returns \<open>newShare\<close>, which was initialised with \<open>capLimit\<close>: at
  \<open>capLimit = 1\<close>, \<open>rawShare = 0.5\<close> and \<open>\<epsilon> = 10\<^sup>-\<^sup>6\<close> the result is \<open>1\<close>, not \<open>0.5\<close>.
\<close>

theorem capLimitTransform_ge_counterexample:
  "dge (Fin 1) (dsub (Fin 1) (Fin (1 / 10 ^ 6))) \<and>
   capLimitTransform (Fin (1 / 10 ^ 6)) (Fin 1) (Fin (1 / 2)) \<noteq> Fin (1 / 2)"
  by (simp add: capLimitTransform_def dge_def dsub_def)

text \<open>
  Claim C1, amended: for every \<open>rawShare\<close>, when \<open>capLimit \<ge> 1 - \<epsilon>\<close> the transform
  returns \<open>capLimit\<close> itself, whatever \<open>rawShare\<close> is.
\<close>

theorem capLimitTransform_ge_returns_limit:
  assumes "dge limit (dsub (Fin 1) SMALL_NUM)"
  shows "capLimitTransform SMALL_NUM limit rawShare = limit"
  using dge_not_dlt [OF assms] by (simp add: capLimitTransform_def)

theorem capLimitTransform_ge_returns_limit_witness:
  "dge (Fin 1) (dsub (Fin 1) (Fin (1 / 10 ^ 6))) \<and>
   capLimitTransform (Fin (1 / 10 ^ 6)) (Fin 1) (Fin (1 / 2)) = Fin 1"
proof -
  have h: "dge (Fin 1) (dsub (Fin 1) (Fin (1 / 10 ^ 6)))" by (simp add: dge_def dsub_def)
  show ?thesis using h capLimitTransform_ge_returns_limit [OF h, of "Fin (1 / 2)"] by simp
qed

text \<open>
  Claim C5: for every \<open>capLimit < 1 - \<epsilon>\<close> and every \<open>rawShare\<close> the transform equals
  \<open>rawShare * factor / (1 + (rawShare / capLimit) * factor)\<close> with
  \<open>factor = exp ((1.4 * rawShare / capLimit)\<^sup>2)\<close>, each operation being that of doubles:
  \<open>logisticSquash\<close> writes the formula of the specification with them.
\<close>

theorem capLimitTransform_logistic:
  assumes "dlt limit (dsub (Fin 1) SMALL_NUM)"
  shows "capLimitTransform SMALL_NUM limit rawShare = logisticSquash limit rawShare"
  using assms by (simp only: capLimitTransform_def logisticSquash_def Let_def if_True)

theorem capLimitTransform_logistic_witness:
  "dlt (Fin (1 / 2)) (dsub (Fin 1) (Fin (1 / 10 ^ 6))) \<and>
   capLimitTransform (Fin (1 / 10 ^ 6)) (Fin (1 / 2)) (Fin (1 / 4))
     = logisticSquash (Fin (1 / 2)) (Fin (1 / 4))"
proof -
  have h: "dlt (Fin (1 / 2)) (dsub (Fin 1) (Fin (1 / 10 ^ 6)))" by (simp add: dsub_def)
  show ?thesis using h capLimitTransform_logistic [OF h, of "Fin (1 / 4)"] by simp
qed




section \<open>Calibration of the share weight\<close>

lemma availableDemand_Fin: "availableDemand (Fin sd) (Fin tf) = Fin (max (sd - tf) 0)"
  by (simp add: availableDemand_def dsub_def Let_def max_def)

lemma getTotalCalOutputs_shrwts_update [simp]:
  "getTotalCalOutputs ops (s\<lparr>shrwts := w\<rparr>) period = getTotalCalOutputs ops s period"
  by (simp add: getTotalCalOutputs_def cong: if_cong)

lemma calOutputSubsect_shrwts_update [simp]:
  "calOutputSubsect ops (s\<lparr>shrwts := w\<rparr>) sd tf tc af period = calOutputSubsect ops s sd tf tc af period"
  by (simp add: calOutputSubsect_def)

lemma adjustForCalibration_shrwts:
  assumes "period < length (shrwts s)"
  shows "shrwts (adjustForCalibration ops s sd tf tc af period) ! period =
     (let w1 = (if deq (shrwts s ! period) (Fin 0) \<and> dgt (getTotalCalOutputs ops s period) (Fin 0)
                then Fin 1 else shrwts s ! period);
          ssd = dmul (share s ! period) sd;
          w2 = (if dgt ssd (Fin 0)
                then dmul w1 (ddiv (calOutputSubsect ops s sd tf tc af period) ssd) else w1)
      in if dlt w2 (Fin 0) then Fin 1 else w2)"
  using assms by (simp add: adjustForCalibration_def Let_def)

lemma availableDemand_dmax:
  "availableDemand sectorDemand totalfixedOutput = dmax (dsub sectorDemand totalfixedOutput) (Fin 0)"
  by (simp add: availableDemand_def dmax_def Let_def)

lemma getNumberAvailTechs_shrwts_update [simp]:
  "getNumberAvailTechs ops (s\<lparr>shrwts := w\<rparr>) period = getNumberAvailTechs ops s period"
  by (simp add: getNumberAvailTechs_def cong: if_cong)

lemma adjustForCalibration_techs:
  "techs (adjustForCalibration ops s sd tf tc af period) =
     (if getNumberAvailTechs ops s period > 1
      then forTechs (notech s) period
             (\<lambda>row t. if techAvailable ops t
                       then tech_adjustForCalibration ops (calOutputSubsect ops s sd tf tc af period) t
                       else t)
             (techs s)
      else techs s)"
  by (simp add: adjustForCalibration_def Let_def)

lemma simple_total_1: "getTotalCalOutputs simpleOps simpleSubsector (Suc 0) = Fin 20"
  by (simp add: getTotalCalOutputs_def simpleSubsector_def)

lemma simple_total_2: "getTotalCalOutputs simpleOps simpleSubsector 2 = Fin 0"
  by (simp add: getTotalCalOutputs_def simpleSubsector_def)

text \<open>
  Claim C6: in \<^verbatim>\<open>adjustForCalibration\<close>, \<open>availableDemand\<close> equals
  \<open>max (sectorDemand - totalfixedOutput, 0)\<close>, and the calibration-output target of the
  subsector is multiplied by \<open>availableDemand / totalCalOutputs\<close> exactly when it is not the
  case that \<open>totalCalOutputs < availableDemand\<close> and not \<open>allFixedOutput\<close>; otherwise it is
  left as \<^verbatim>\<open>getTotalCalOutputs\<close> returned it. The target so obtained is what the function
  uses: the share weight of the period is scaled by \<open>target / subSectorDemand\<close> (when that
  demand is positive, and reset to \<open>1\<close> when the result is negative), and the target is the
  value handed to \<^verbatim>\<open>technology::adjustForCalibration\<close> for every available technology
  when more than one is available.
\<close>

theorem adjustForCalibration_rescale:
  assumes "period < length (shrwts s)"
  shows
    "(let availDemand = dmax (dsub sectorDemand totalfixedOutput) (Fin 0);
          calOutput = getTotalCalOutputs ops s period;
          target = (if \<not> (dlt totalCalOutputs availDemand \<and> \<not> allFixedOutput)
                    then dmul calOutput (ddiv availDemand totalCalOutputs)
                    else calOutput);
          w1 = (if deq (shrwts s ! period) (Fin 0) \<and> dgt calOutput (Fin 0)
                then Fin 1 else shrwts s ! period);
          subSectorDemand = dmul (share s ! period) sectorDemand;
          w2 = (if dgt subSectorDemand (Fin 0)
                then dmul w1 (ddiv target subSectorDemand) else w1);
          s' = adjustForCalibration ops s sectorDemand totalfixedOutput totalCalOutputs
                 allFixedOutput period
      in availableDemand sectorDemand totalfixedOutput = availDemand \<and>
         shrwts s' ! period = (if dlt w2 (Fin 0) then Fin 1 else w2) \<and>
         techs s' =
           (if getNumberAvailTechs ops s period > 1
            then forTechs (notech s) period
                   (\<lambda>row t. if techAvailable ops t
                             then tech_adjustForCalibration ops target t else t)
                   (techs s)
            else techs s))"
proof -
  have t: "calOutputSubsect ops s sectorDemand totalfixedOutput totalCalOutputs allFixedOutput period
           = (if \<not> (dlt totalCalOutputs (dmax (dsub sectorDemand totalfixedOutput) (Fin 0))
                     \<and> \<not> allFixedOutput)
              then dmul (getTotalCalOutputs ops s period)
                        (ddiv (dmax (dsub sectorDemand totalfixedOutput) (Fin 0)) totalCalOutputs)
              else getTotalCalOutputs ops s period)"
    by (simp add: calOutputSubsect_def availableDemand_dmax Let_def)
  show ?thesis
    unfolding Let_def adjustForCalibration_shrwts [OF assms] adjustForCalibration_techs t
    by (simp only: availableDemand_dmax simp_thms)
qed

theorem adjustForCalibration_rescale_witness:
  "1 < length (shrwts simpleSubsector) \<and>
   availableDemand (Fin 100) (Fin 40) = Fin 60 \<and>
   getTotalCalOutputs simpleOps simpleSubsector 1 = Fin 20 \<and>
   shrwts (adjustForCalibration simpleOps simpleSubsector (Fin 100) (Fin 40) (Fin 10) True 1) ! 1
     = Fin (12 / 5) \<and>
   techs (adjustForCalibration simpleOps simpleSubsector (Fin 100) (Fin 40) (Fin 10) True 1)
     = techs simpleSubsector"
proof -
  have h: "1 < length (shrwts simpleSubsector)" by (simp add: simpleSubsector_def)
  have d: "dmax (dsub (Fin 100) (Fin 40)) (Fin 0) = Fin 60" by (simp add: dmax_def dsub_def)
  have c: "getTotalCalOutputs simpleOps simpleSubsector 1 = Fin 20" by (simp add: simple_total_1)
  have n: "getNumberAvailTechs simpleOps simpleSubsector 1 = 1"
    by (simp add: getNumberAvailTechs_def simpleSubsector_def simpleOps_def)
  have v: "shrwts simpleSubsector ! 1 = Fin 1" "share simpleSubsector ! 1 = Fin (1 / 2)"
    by (simp_all add: simpleSubsector_def)
  from adjustForCalibration_rescale [OF h, where sectorDemand = "Fin 100" and totalfixedOutput = "Fin 40"
      and totalCalOutputs = "Fin 10" and allFixedOutput = True and ops = simpleOps]
  have "availableDemand (Fin 100) (Fin 40) = Fin 60 \<and>
   shrwts (adjustForCalibration simpleOps simpleSubsector (Fin 100) (Fin 40) (Fin 10) True 1) ! 1
     = Fin (12 / 5) \<and>
   techs (adjustForCalibration simpleOps simpleSubsector (Fin 100) (Fin 40) (Fin 10) True 1)
     = techs simpleSubsector"
    unfolding Let_def d c n v by (simp add: dgt_def)
  with h c show ?thesis by blast
qed

text \<open>
  Claim C2, as stated: for \<open>sectorDemand = 100\<close>, \<open>totalfixedOutput = 40\<close>,
  \<open>totalCalOutputs = 50\<close> and \<open>allFixedOutput = false\<close> the available demand is \<open>60\<close> and
  the calibration-output target is rescaled by \<open>60 / 50 = 1.2\<close>. The available demand is
  \<open>60\<close>, but \<open>50 < 60\<close> and not all output is fixed, so the rescaling block is skipped: the
  target \<open>20\<close> of the instance stays \<open>20\<close> (not \<open>24\<close>) and its share weight becomes
  \<open>1 * 20 / (0.5 * 100) = 0.4\<close> (not \<open>0.48\<close>).
\<close>

theorem adjustForCalibration_scenarioC_counterexample:
  "availableDemand (Fin 100) (Fin 40) = Fin 60 \<and>
   getTotalCalOutputs simpleOps simpleSubsector 1 = Fin 20 \<and>
   calOutputSubsect simpleOps simpleSubsector (Fin 100) (Fin 40) (Fin 50) False 1 = Fin 20 \<and>
   Fin 20 \<noteq> dmul (Fin 20) (ddiv (Fin 60) (Fin 50)) \<and>
   shrwts (adjustForCalibration simpleOps simpleSubsector (Fin 100) (Fin 40) (Fin 50) False 1) ! 1
     = Fin (2 / 5)"
proof -
  have 1: "availableDemand (Fin 100) (Fin 40) = Fin 60" by (simp add: availableDemand_Fin)
  have 2: "calOutputSubsect simpleOps simpleSubsector (Fin 100) (Fin 40) (Fin 50) False 1 = Fin 20"
    by (simp add: calOutputSubsect_def 1 simple_total_1)
  have 3: "Fin 20 \<noteq> dmul (Fin 20) (ddiv (Fin 60) (Fin 50))" by simp
  have l: "1 < length (shrwts simpleSubsector)" by (simp add: simpleSubsector_def)
  have 4: "shrwts (adjustForCalibration simpleOps simpleSubsector (Fin 100) (Fin 40) (Fin 50) False 1) ! 1
     = Fin (2 / 5)"
    unfolding adjustForCalibration_shrwts [OF l] 2
    by (simp add: simple_total_1 simpleSubsector_def dgt_def)
  have 5: "getTotalCalOutputs simpleOps simpleSubsector 1 = Fin 20" by (simp add: simple_total_1)
  from 1 5 2 3 4 show ?thesis by blast
qed

text \<open>
  Claim C2, amended: for \<open>sectorDemand = 100\<close>, \<open>totalfixedOutput = 40\<close>,
  \<open>totalCalOutputs = 50\<close> and \<open>allFixedOutput = false\<close>, \<^verbatim>\<open>adjustForCalibration\<close> computes
  \<open>availableDemand = 60\<close> and leaves the calibration-output target of the subsector as it
  is (no factor \<open>1.2\<close>) before adjusting the share weight.
\<close>

theorem adjustForCalibration_scenarioC:
  "availableDemand (Fin 100) (Fin 40) = Fin 60 \<and>
   calOutputSubsect ops s (Fin 100) (Fin 40) (Fin 50) False period = getTotalCalOutputs ops s period"
  by (simp add: calOutputSubsect_def availableDemand_Fin)

text \<open>
  Claim C3, as stated: for every input, also \<open>totalCalOutputs = 0\<close> with nonzero
  calibration targets, the share weight of the period is a finite, non-negative number after
  \<^verbatim>\<open>adjustForCalibration\<close>. The division by \<open>totalCalOutputs\<close> is not guarded: with
  \<open>allFixedOutput\<close> set and \<open>totalCalOutputs = 0\<close> the target \<open>20\<close> becomes
  \<open>20 * (100 / 0) = +\<infinity>\<close> and so does the share weight; a target \<open>0\<close> becomes
  \<open>0 * (60 / 0)\<close>, which is NaN, and the test \<open>shrwts[period] < 0\<close> lets NaN through.
\<close>

theorem adjustForCalibration_finite_counterexample:
  "getTotalCalOutputs simpleOps simpleSubsector 1 = Fin 20 \<and>
   shrwts (adjustForCalibration simpleOps simpleSubsector (Fin 100) (Fin 0) (Fin 0) True 1) ! 1 = PInf \<and>
   \<not> isFinite PInf \<and>
   getTotalCalOutputs simpleOps simpleSubsector 2 = Fin 0 \<and>
   shrwts (adjustForCalibration simpleOps simpleSubsector (Fin 100) (Fin 40) (Fin 0) True 2) ! 2 = NaN \<and>
   \<not> isFinite NaN \<and> \<not> dge NaN (Fin 0)"
proof -
  have c1: "calOutputSubsect simpleOps simpleSubsector (Fin 100) (Fin 0) (Fin 0) True 1 = PInf"
    by (simp add: calOutputSubsect_def availableDemand_Fin simple_total_1)
  have c2: "calOutputSubsect simpleOps simpleSubsector (Fin 100) (Fin 40) (Fin 0) True 2 = NaN"
    by (simp add: calOutputSubsect_def availableDemand_Fin simple_total_2)
  have l1: "1 < length (shrwts simpleSubsector)" by (simp add: simpleSubsector_def)
  have l2: "2 < length (shrwts simpleSubsector)" by (simp add: simpleSubsector_def)
  have 1: "shrwts (adjustForCalibration simpleOps simpleSubsector (Fin 100) (Fin 0) (Fin 0) True 1) ! 1 = PInf"
    unfolding adjustForCalibration_shrwts [OF l1] c1
    by (simp add: simple_total_1 simpleSubsector_def dgt_def)
  have 2: "shrwts (adjustForCalibration simpleOps simpleSubsector (Fin 100) (Fin 40) (Fin 0) True 2) ! 2 = NaN"
    unfolding adjustForCalibration_shrwts [OF l2] c2
    by (simp add: simple_total_2 simpleSubsector_def dgt_def)
  have 3: "\<not> isFinite PInf" "\<not> isFinite NaN" "\<not> dge NaN (Fin 0)" by (simp_all add: dge_def)
  have 4: "getTotalCalOutputs simpleOps simpleSubsector 1 = Fin 20" by (simp add: simple_total_1)
  from 4 simple_total_2 1 2 3 show ?thesis by blast
qed

text \<open>
  Claim C3, amended: for every input, after \<^verbatim>\<open>adjustForCalibration\<close> returns, the share
  weight of the period is never negative (the test \<open>shrwts[period] < 0\<close> is false): it is
  the scaled share weight, or \<open>1\<close> when that was negative. It is a finite, non-negative
  number whenever the scaled share weight is finite; nothing in the function makes it so
  otherwise, and a scaled weight that is \<open>+\<infinity>\<close> or NaN (from the division by
  \<open>totalCalOutputs = 0\<close>, or from an overflow) is left in place.
\<close>

theorem adjustForCalibration_never_negative:
  assumes "period < length (shrwts s)"
  shows
    "(let w1 = (if deq (shrwts s ! period) (Fin 0) \<and> dgt (getTotalCalOutputs ops s period) (Fin 0)
                then Fin 1 else shrwts s ! period);
          subSectorDemand = dmul (share s ! period) sectorDemand;
          w2 = (if dgt subSectorDemand (Fin 0)
                then dmul w1 (ddiv (calOutputSubsect ops s sectorDemand totalfixedOutput
                                      totalCalOutputs allFixedOutput period) subSectorDemand)
                else w1);
          r = shrwts (adjustForCalibration ops s sectorDemand totalfixedOutput totalCalOutputs
                        allFixedOutput period) ! period
      in \<not> dlt r (Fin 0) \<and>
         r = (if dlt w2 (Fin 0) then Fin 1 else w2) \<and>
         (isFinite w2 \<longrightarrow> isFinite r \<and> dge r (Fin 0)))"
proof -
  have k: "\<not> dlt (if dlt w (Fin 0) then Fin 1 else w) (Fin 0) \<and>
           (isFinite w \<longrightarrow> isFinite (if dlt w (Fin 0) then Fin 1 else w)
                            \<and> dge (if dlt w (Fin 0) then Fin 1 else w) (Fin 0))" for w
    by (cases w) (simp_all add: dge_def)
  show ?thesis
    unfolding Let_def adjustForCalibration_shrwts [OF assms]
    using k by blast
qed

theorem adjustForCalibration_never_negative_witness:
  "1 < length (shrwts simpleSubsector) \<and>
   shrwts (adjustForCalibration simpleOps simpleSubsector (Fin 100) (Fin 40) (Fin 50) True 1) ! 1
     = Fin (12 / 25) \<and>
   \<not> dlt (shrwts (adjustForCalibration simpleOps simpleSubsector (Fin 100) (Fin 40) (Fin 50) True 1) ! 1)
          (Fin 0) \<and>
   isFinite (shrwts (adjustForCalibration simpleOps simpleSubsector (Fin 100) (Fin 40) (Fin 50) True 1) ! 1)"
proof -
  have h: "1 < length (shrwts simpleSubsector)" by (simp add: simpleSubsector_def)
  have c: "getTotalCalOutputs simpleOps simpleSubsector 1 = Fin 20" by (simp add: simple_total_1)
  have t: "calOutputSubsect simpleOps simpleSubsector (Fin 100) (Fin 40) (Fin 50) True 1 = Fin 24"
    by (simp add: calOutputSubsect_def availableDemand_Fin simple_total_1)
  have v: "shrwts simpleSubsector ! 1 = Fin 1" "share simpleSubsector ! 1 = Fin (1 / 2)"
    by (simp_all add: simpleSubsector_def)
  from adjustForCalibration_never_negative [OF h, where sectorDemand = "Fin 100"
      and totalfixedOutput = "Fin 40" and totalCalOutputs = "Fin 50" and allFixedOutput = True
      and ops = simpleOps]
  have "shrwts (adjustForCalibration simpleOps simpleSubsector (Fin 100) (Fin 40) (Fin 50) True 1) ! 1
     = Fin (12 / 25)"
    unfolding Let_def c t v by (simp add: dgt_def)
  with h show ?thesis by simp
qed

text \<open>
  Claim C7: if the share weight of the period is \<open>0\<close> and the total calibrated output of
  the subsector for the period is positive, \<^verbatim>\<open>adjustForCalibration\<close> resets the share weight
  to \<open>1\<close> before any further computation: the share weight it leaves is computed from
  \<open>1\<close> (it is \<open>1 * target / subSectorDemand\<close> when that demand is positive, \<open>1\<close> when
  this is negative, and \<open>1\<close> itself when the demand is not positive), and the whole result
  is that of the call on the subsector whose share weight of the period is \<open>1\<close>.
\<close>

theorem adjustForCalibration_zero_weight_reset:
  assumes "period < length (shrwts s)"
    and "deq (shrwts s ! period) (Fin 0)"
    and "dgt (getTotalCalOutputs ops s period) (Fin 0)"
  shows
    "(let subSectorDemand = dmul (share s ! period) sectorDemand;
          w2 = (if dgt subSectorDemand (Fin 0)
                then dmul (Fin 1)
                       (ddiv (calOutputSubsect ops s sectorDemand totalfixedOutput totalCalOutputs
                                allFixedOutput period) subSectorDemand)
                else Fin 1);
          s' = adjustForCalibration ops s sectorDemand totalfixedOutput totalCalOutputs
                 allFixedOutput period
      in shrwts s' ! period = (if dlt w2 (Fin 0) then Fin 1 else w2) \<and>
         (\<not> dgt subSectorDemand (Fin 0) \<longrightarrow> shrwts s' ! period = Fin 1) \<and>
         s' = adjustForCalibration ops (s\<lparr>shrwts := (shrwts s)[period := Fin 1]\<rparr>)
                sectorDemand totalfixedOutput totalCalOutputs allFixedOutput period)"
proof -
  let ?s = "s\<lparr>shrwts := (shrwts s)[period := Fin 1]\<rparr>"
  let ?adj = "\<lambda>s. adjustForCalibration ops s sectorDemand totalfixedOutput totalCalOutputs
                   allFixedOutput period"
  have a: "shrwts ?s ! period = Fin 1" using assms(1) by simp
  have n: "\<not> deq (shrwts ?s ! period) (Fin 0)" unfolding a by simp
  have e: "?adj s = ?adj ?s"
    unfolding adjustForCalibration_def [of ops s] adjustForCalibration_def [of ops ?s]
    using assms(2,3) n
    by (simp only: getTotalCalOutputs_shrwts_update calOutputSubsect_shrwts_update simp_thms
        if_True if_False)
  have w: "shrwts (?adj s) ! period =
     (let w1 = Fin 1;
          ssd = dmul (share s ! period) sectorDemand;
          w2 = (if dgt ssd (Fin 0)
                then dmul w1 (ddiv (calOutputSubsect ops s sectorDemand totalfixedOutput
                                      totalCalOutputs allFixedOutput period) ssd) else w1)
      in if dlt w2 (Fin 0) then Fin 1 else w2)"
    unfolding adjustForCalibration_shrwts [OF assms(1)] using assms(2,3) by (simp only: simp_thms if_True)
  have z: "\<not> dlt (Fin 1) (Fin 0)" by simp
  show ?thesis
    unfolding Let_def using w e z by (simp only: Let_def simp_thms split: if_splits) 
qed

theorem adjustForCalibration_zero_weight_reset_witness:
  "1 < length (shrwts (simpleSubsector\<lparr>shrwts := [Fin 1, Fin 0, Fin 1]\<rparr>)) \<and>
   deq (shrwts (simpleSubsector\<lparr>shrwts := [Fin 1, Fin 0, Fin 1]\<rparr>) ! 1) (Fin 0) \<and>
   dgt (getTotalCalOutputs simpleOps (simpleSubsector\<lparr>shrwts := [Fin 1, Fin 0, Fin 1]\<rparr>) 1) (Fin 0) \<and>
   shrwts (adjustForCalibration simpleOps (simpleSubsector\<lparr>shrwts := [Fin 1, Fin 0, Fin 1]\<rparr>)
             (Fin 100) (Fin 40) (Fin 50) False 1) ! 1 = Fin (2 / 5) \<and>
   adjustForCalibration simpleOps (simpleSubsector\<lparr>shrwts := [Fin 1, Fin 0, Fin 1]\<rparr>)
       (Fin 100) (Fin 40) (Fin 50) False 1
   = adjustForCalibration simpleOps (simpleSubsector\<lparr>shrwts := [Fin 1, Fin 1, Fin 1]\<rparr>)
       (Fin 100) (Fin 40) (Fin 50) False 1"
proof -
  let ?s = "simpleSubsector\<lparr>shrwts := [Fin 1, Fin 0, Fin 1]\<rparr>"
  have h1: "1 < length (shrwts ?s)" by simp
  have h2: "deq (shrwts ?s ! 1) (Fin 0)" by simp
  have h3: "dgt (getTotalCalOutputs simpleOps ?s 1) (Fin 0)"
    by (simp add: simple_total_1 dgt_def)
  have e: "?s\<lparr>shrwts := (shrwts ?s)[1 := Fin 1]\<rparr> = simpleSubsector\<lparr>shrwts := [Fin 1, Fin 1, Fin 1]\<rparr>"
    by simp
  have t: "calOutputSubsect simpleOps ?s (Fin 100) (Fin 40) (Fin 50) False 1 = Fin 20"
    by (simp add: calOutputSubsect_def availableDemand_Fin simple_total_1)
  have v: "share ?s ! 1 = Fin (1 / 2)" by (simp add: simpleSubsector_def)
  note r = adjustForCalibration_zero_weight_reset [OF h1 h2 h3, where sectorDemand = "Fin 100"
      and totalfixedOutput = "Fin 40" and totalCalOutputs = "Fin 50" and allFixedOutput = False,
      unfolded Let_def]
  have a: "shrwts (adjustForCalibration simpleOps ?s (Fin 100) (Fin 40) (Fin 50) False 1) ! 1 = Fin (2 / 5)"
    using r [THEN conjunct1] unfolding t v by (simp add: dgt_def)
  have b: "adjustForCalibration simpleOps ?s (Fin 100) (Fin 40) (Fin 50) False 1
        = adjustForCalibration simpleOps (simpleSubsector\<lparr>shrwts := [Fin 1, Fin 1, Fin 1]\<rparr>)
            (Fin 100) (Fin 40) (Fin 50) False 1"
    using r [THEN conjunct2, THEN conjunct2] unfolding e .
  from h1 h2 h3 a b show ?thesis by blast
qed

section \<open>Interpolation of the share weights\<close>

text \<open>
  With a zero increment the loop copies the entry before its first index into every
  entry it visits.
\<close>

lemma interpLoop_zero_nth:
  assumes "inc = Fin 0" and "0 < k" and "n \<le> length w" and "j < length w"
  shows "interpLoop inc k n w ! j = (if k \<le> j \<and> j < n then w ! (k - 1) else w ! j)"
  using assms
proof (induction inc k n w rule: interpLoop.induct)
  case (1 shareIncrement period loopPeriod w)
  show ?case
  proof (cases "period < loopPeriod")
    case False
    then have "interpLoop shareIncrement period loopPeriod w = w"
      by (simp add: interpLoop.simps [of _ period])
    moreover have "\<not> (period \<le> j \<and> j < loopPeriod)" using False by linarith
    ultimately show ?thesis by auto
  next
    case True
    let ?w = "w[period := dadd (w ! (period - 1)) shareIncrement]"
    have k: "period < length w" using True "1.prems" by linarith
    have step: "interpLoop shareIncrement period loopPeriod w
                = interpLoop shareIncrement (Suc period) loopPeriod ?w"
      using True by (simp add: interpLoop.simps [of _ period])
    have ih: "interpLoop shareIncrement (Suc period) loopPeriod ?w ! j
              = (if Suc period \<le> j \<and> j < loopPeriod then ?w ! (Suc period - 1) else ?w ! j)"
      using "1.IH" [OF True] "1.prems" by simp
    have upd: "?w ! period = w ! (period - 1)"
      using k "1.prems"(1) by (simp add: dadd_zero_right)
    show ?thesis
    proof (cases "j = period")
      case True
      then show ?thesis unfolding step ih using upd \<open>period < loopPeriod\<close> by simp
    next
      case False
      then have "?w ! j = w ! j" by simp
      then show ?thesis unfolding step ih using upd False by auto
    qed
  qed
qed

text \<open>
  Claim C8: for every period \<open>p\<close>, \<^verbatim>\<open>shareWeightLinearInterpFn(p, p)\<close> leaves the share
  weight constant: for every period from \<open>p + 1\<close> through the end of the horizon (the last
  period is \<open>getmaxper() - 1\<close>, and the share-weight vector has \<open>getmaxper()\<close> entries) the
  share weight equals the share weight at period \<open>p\<close>.
\<close>

theorem shareWeightLinearInterpFn_constant:
  assumes "length (shrwts s) = getmaxper (getModeltime scn)"
    and "p < q" and "q < getmaxper (getModeltime scn)"
  shows "shrwts (shareWeightLinearInterpFn scn p p s) ! q = shrwts s ! p"
proof -
  have "shrwts (shareWeightLinearInterpFn scn p p s)
        = interpLoop (Fin 0) (p + 1) (getmaxper (getModeltime scn)) (shrwts s)"
    by (simp add: shareWeightLinearInterpFn_def)
  moreover have "interpLoop (Fin 0) (p + 1) (getmaxper (getModeltime scn)) (shrwts s) ! q
        = shrwts s ! p"
    using assms by (simp add: interpLoop_zero_nth [OF refl])
  ultimately show ?thesis by simp
qed

theorem shareWeightLinearInterpFn_constant_witness:
  "length (shrwts (simpleSubsector\<lparr>shrwts := [Fin 2, Fin 5, Fin 7]\<rparr>))
     = getmaxper (getModeltime simpleScenario) \<and>
   (0::nat) < 2 \<and> 2 < getmaxper (getModeltime simpleScenario) \<and>
   shrwts (shareWeightLinearInterpFn simpleScenario 0 0
             (simpleSubsector\<lparr>shrwts := [Fin 2, Fin 5, Fin 7]\<rparr>)) ! 2 = Fin 2"
proof -
  let ?s = "simpleSubsector\<lparr>shrwts := [Fin 2, Fin 5, Fin 7]\<rparr>"
  have h1: "length (shrwts ?s) = getmaxper (getModeltime simpleScenario)"
    by (simp add: simpleScenario_def)
  have h2: "(0::nat) < 2" by simp
  have h3: "2 < getmaxper (getModeltime simpleScenario)" by (simp add: simpleScenario_def)
  have "shrwts ?s ! 0 = Fin 2" by simp
  with h1 h2 h3 shareWeightLinearInterpFn_constant [OF h1 h2 h3]
  show ?thesis by simp
qed

section \<open>The share of the subsector\<close>

lemma fold_field:
  assumes "\<And>i s. g (f i s) = g s"
  shows "g (fold f xs s) = g s"
  by (induction xs arbitrary: s) (simp_all add: assms)






section \<open>Initialisation of a period\<close>

lemma dle_one_not_dlt: "dle a (Fin 1) \<Longrightarrow> \<not> dlt a (Fin 1) \<Longrightarrow> a = Fin 1"
  by (cases a) simp_all

lemma forTechs_Suc:
  "forTechs (Suc n) period f ts =
     (let ts' = forTechs n period f ts
      in ts'[n := (ts' ! n)[period := f (ts' ! n) (ts' ! n ! period)]])"
  by (simp add: forTechs_def Let_def)

lemma forTechs_preserves:
  assumes "\<And>row t. P (f row t) = P t"
  shows "P (forTechs n period f ts ! i ! period) = P (ts ! i ! period)"
proof (induction n)
  case 0
  show ?case by (simp add: forTechs_def)
next
  case (Suc n)
  let ?ts = "forTechs n period f ts"
  let ?row = "(?ts ! n)[period := f (?ts ! n) (?ts ! n ! period)]"
  have row: "P (?row ! period) = P (?ts ! n ! period)"
    by (cases "period < length (?ts ! n)") (simp_all add: assms list_update_beyond)
  have "P (?ts[n := ?row] ! i ! period) = P (?ts ! i ! period)"
  proof (cases "i = n \<and> n < length ?ts")
    case True
    then show ?thesis using row by simp
  next
    case False
    then have "?ts[n := ?row] ! i = ?ts ! i"
      by (cases "i = n") (simp_all add: list_update_beyond)
    then show ?thesis by simp
  qed
  then show ?case using Suc.IH by (simp add: forTechs_Suc Let_def)
qed

lemma getTotalCalOutputs_techs_cong:
  assumes "\<And>i. getCalibrationStatus ops (ts ! i ! period) = getCalibrationStatus ops (techs s ! i ! period)"
    and "\<And>i. getCalibrationOutput ops (ts ! i ! period) = getCalibrationOutput ops (techs s ! i ! period)"
  shows "getTotalCalOutputs ops (s\<lparr>techs := ts\<rparr>) period = getTotalCalOutputs ops s period"
  by (simp add: getTotalCalOutputs_def assms cong: if_cong)

lemma getTotalCalOutputs_capLimit_update [simp]:
  "getTotalCalOutputs ops (s\<lparr>capLimit := c\<rparr>) period = getTotalCalOutputs ops s period"
  by (simp add: getTotalCalOutputs_def cong: if_cong)

lemma capLimit_setCalibrationStatus [simp]:
  "capLimit (setCalibrationStatus ops s period) = capLimit s"
  by (simp add: setCalibrationStatus_def)

lemma capLimit_interpolateShareWeights [simp]:
  "capLimit (interpolateShareWeights scn s period) = capLimit s"
  by (simp add: interpolateShareWeights_def shareWeightLinearInterpFn_def Let_def)

lemma simple_initCalc:
  "initCalc simpleScenario simpleOps simpleSubsector (Suc 0)
   = simpleSubsector\<lparr>calibrationStatus := [False, True, False],
                     capLimit := [Fin 1, Fin 1, Fin 1]\<rparr>"
  by (simp add: initCalc_def simpleScenario_def simpleOps_def simpleSubsector_def
      simpleTechnology_def forTechs_def setCalibrationStatus_def interpolateShareWeights_def
      getFixedOutput_def getTotalCalOutputs_def passForwardGHG_def dgt_def Let_def)

lemma not_dlt_one_guard:
  assumes "\<not> dlt r (Fin 1)" and "0 \<le> e"
  shows "\<not> dlt r (dsub (Fin 1) (Fin e))"
  using assms by (cases r) (simp_all add: dsub_def)

lemma simple_initCalc_wide:
  "initCalc simpleScenario simpleOps (simpleSubsector\<lparr>capLimit := [Fin 1, Fin (3 / 2), Fin 1]\<rparr>) (Suc 0)
   = simpleSubsector\<lparr>calibrationStatus := [False, True, False],
                     capLimit := [Fin 1, Fin (3 / 2), Fin 1]\<rparr>"
  by (simp add: initCalc_def simpleScenario_def simpleOps_def simpleSubsector_def
      simpleTechnology_def forTechs_def setCalibrationStatus_def interpolateShareWeights_def
      getFixedOutput_def getTotalCalOutputs_def passForwardGHG_def dgt_def Let_def)

text \<open>
  Claim C10, as stated: after \<^verbatim>\<open>initCalc\<close> has run for a period, a positive total
  calibrated output makes the capacity limit of the period equal to \<open>1.0\<close>. The code
  overrides only a limit below \<open>1\<close> (the test is \<open>capLimit[period] < 1\<close>), and
  \<^verbatim>\<open>XMLParse\<close> stores any \<^verbatim>\<open>capacitylimit\<close> it reads: a configured limit of \<open>1.5\<close> is
  still \<open>1.5\<close> after \<^verbatim>\<open>initCalc\<close>, with the calibrated output \<open>20\<close> of the instance.
\<close>

theorem initCalc_calibrated_capLimit_counterexample:
  "dgt (getTotalCalOutputs simpleOps
          (initCalc simpleScenario simpleOps
             (simpleSubsector\<lparr>capLimit := [Fin 1, Fin (3 / 2), Fin 1]\<rparr>) 1) 1) (Fin 0) \<and>
   capLimit (initCalc simpleScenario simpleOps
               (simpleSubsector\<lparr>capLimit := [Fin 1, Fin (3 / 2), Fin 1]\<rparr>) 1) ! 1 = Fin (3 / 2) \<and>
   Fin (3 / 2) \<noteq> Fin 1"
  unfolding One_nat_def simple_initCalc_wide
  by (simp add: getTotalCalOutputs_def simpleSubsector_def dgt_def)

text \<open>
  Claim C10, amended: after \<^verbatim>\<open>initCalc\<close> has run for a period, if the total calibrated
  output of the subsector for the period is positive then its capacity limit for the period
  is not below \<open>1\<close>: it equals \<open>1.0\<close> when the configured limit was at most \<open>1\<close> (a positive
  calibration target overrides any configured limit below \<open>1\<close>), and a configured limit
  that was not below \<open>1\<close> is left as it is. In either case the capacity-limit transform
  returns the limit and squashes nothing in that period. \<^verbatim>\<open>copyGHGParameters\<close>, a member of
  \<^verbatim>\<open>technology\<close> that runs after the test, copies emission parameters; that it leaves the
  calibration status and the calibration output of the technology alone is a premise.
\<close>

theorem initCalc_calibrated_capLimit:
  assumes "period < length (capLimit s)"
    and "\<And>prev ghgName t.
           getCalibrationStatus ops (copyGHGParameters ops prev ghgName t) = getCalibrationStatus ops t"
    and "\<And>prev ghgName t.
           getCalibrationOutput ops (copyGHGParameters ops prev ghgName t) = getCalibrationOutput ops t"
    and "dgt (getTotalCalOutputs ops (initCalc scn ops s period) period) (Fin 0)"
  shows "\<not> dlt (capLimit (initCalc scn ops s period) ! period) (Fin 1) \<and>
         (dle (capLimit s ! period) (Fin 1) \<longrightarrow>
            capLimit (initCalc scn ops s period) ! period = Fin 1) \<and>
         (\<not> dlt (capLimit s ! period) (Fin 1) \<longrightarrow>
            capLimit (initCalc scn ops s period) ! period = capLimit s ! period) \<and>
         (\<forall>e rawShare. 0 \<le> e \<longrightarrow>
            capLimitTransform (Fin e) (capLimit (initCalc scn ops s period) ! period) rawShare
            = capLimit (initCalc scn ops s period) ! period)"
proof -
  define s1 where "s1 = s\<lparr>techs := forTechs (notech s) period
                              (\<lambda>row t. calcfixedOutput ops period (tech_initCalc ops t)) (techs s)\<rparr>"
  define s3 where "s3 = interpolateShareWeights scn (setCalibrationStatus ops s1 period) period"
  define s4 where "s4 = s3\<lparr>fixedShare := (fixedShare s3)[period := Fin 0]\<rparr>"
  define s5 where "s5 = (if dgt (getFixedOutput ops s4 period) (Fin 0) \<and> deq (fixedShare s4 ! period) (Fin 0)
                then s4\<lparr>fixedShare := (fixedShare s4)[period := Fin (1 / 10)]\<rparr> else s4)"
  define s6 where "s6 = (if dgt (getTotalCalOutputs ops s5 period) (Fin 0) \<and> dlt (capLimit s5 ! period) (Fin 1)
                then s5\<lparr>capLimit := (capLimit s5)[period := Fin 1]\<rparr> else s5)"
  define s7 where "s7 = (if period > 0 \<and> period < getmaxper (getModeltime scn)
         then s6\<lparr>techs := forTechs (notech s6) period (passForwardGHG ops period) (techs s6)\<rparr>
         else s6)"
  define r where "r = capLimit s7 ! period"
  have run: "initCalc scn ops s period = s7"
    unfolding initCalc_def Let_def s7_def s6_def s5_def s4_def s3_def s1_def by (rule refl)
  have cap5: "capLimit s5 = capLimit s"
    by (simp add: s5_def s4_def s3_def s1_def)
  have ghg_status: "getCalibrationStatus ops (passForwardGHG ops period row t) = getCalibrationStatus ops t"
    for row t
    unfolding passForwardGHG_def Let_def
    by (simp add: fold_field [where g = "getCalibrationStatus ops"] assms(2))
  have ghg_output: "getCalibrationOutput ops (passForwardGHG ops period row t) = getCalibrationOutput ops t"
    for row t
    unfolding passForwardGHG_def Let_def
    by (simp add: fold_field [where g = "getCalibrationOutput ops"] assms(3))
  have tot7: "getTotalCalOutputs ops s7 period = getTotalCalOutputs ops s6 period"
    unfolding s7_def
    by (simp add: getTotalCalOutputs_techs_cong
        forTechs_preserves [where P = "getCalibrationStatus ops", OF ghg_status]
        forTechs_preserves [where P = "getCalibrationOutput ops", OF ghg_output])
  have tot6: "getTotalCalOutputs ops s6 period = getTotalCalOutputs ops s5 period"
    by (simp add: s6_def)
  have cap7: "capLimit s7 = capLimit s6" by (simp add: s7_def)
  have pos: "dgt (getTotalCalOutputs ops s5 period) (Fin 0)"
    using assms(4) by (simp add: run tot7 tot6)
  have val: "r = (if dlt (capLimit s ! period) (Fin 1) then Fin 1 else capLimit s ! period)"
    unfolding r_def cap7 using pos assms(1) by (simp add: s6_def cap5)
  have 1: "\<not> dlt r (Fin 1)" unfolding val by simp
  have 2: "r = Fin 1" if "dle (capLimit s ! period) (Fin 1)"
    unfolding val using dle_one_not_dlt [OF that] by simp
  have 3: "r = capLimit s ! period" if "\<not> dlt (capLimit s ! period) (Fin 1)"
    unfolding val using that by simp
  have 4: "capLimitTransform (Fin e) r rawShare = r" if "0 \<le> e" for e rawShare
    using not_dlt_one_guard [OF 1 that] by (simp add: capLimitTransform_def)
  from 1 2 3 4 show ?thesis unfolding run r_def [symmetric] by blast
qed

theorem initCalc_calibrated_capLimit_witness:
  "1 < length (capLimit simpleSubsector) \<and>
   dle (capLimit simpleSubsector ! 1) (Fin 1) \<and>
   capLimit simpleSubsector ! 1 = Fin (1 / 2) \<and>
   dgt (getTotalCalOutputs simpleOps (initCalc simpleScenario simpleOps simpleSubsector 1) 1) (Fin 0) \<and>
   capLimit (initCalc simpleScenario simpleOps simpleSubsector 1) ! 1 = Fin 1"
proof -
  have h1: "1 < length (capLimit simpleSubsector)" by (simp add: simpleSubsector_def)
  have h2: "dle (capLimit simpleSubsector ! 1) (Fin 1)" by (simp add: simpleSubsector_def)
  have v: "capLimit simpleSubsector ! 1 = Fin (1 / 2)" by (simp add: simpleSubsector_def)
  have h3: "getCalibrationStatus simpleOps (copyGHGParameters simpleOps prev ghgName t)
            = getCalibrationStatus simpleOps t" for prev ghgName t
    by (simp add: simpleOps_def)
  have h4: "getCalibrationOutput simpleOps (copyGHGParameters simpleOps prev ghgName t)
            = getCalibrationOutput simpleOps t" for prev ghgName t
    by (simp add: simpleOps_def)
  have h5: "dgt (getTotalCalOutputs simpleOps (initCalc simpleScenario simpleOps simpleSubsector 1) 1) (Fin 0)"
    unfolding One_nat_def simple_initCalc
    by (simp add: getTotalCalOutputs_def simpleSubsector_def dgt_def)
  from h1 h2 v h5 initCalc_calibrated_capLimit [OF h1 h3 h4 h5]
  show ?thesis by blast
qed

end
